theory Spec2Isabelle
  imports Main "HOL-Library.Char_ord" "HOL-Library.List_Lexorder"
begin

section \<open>Errors and panics\<close>

text \<open>
  A Go \<^verbatim>\<open>error\<close> value. \<open>Wrap err msg\<close> is \<^verbatim>\<open>errors.Wrap(err, msg)\<close> of
  github.com/pkg/errors; an \<^verbatim>\<open>*model.AppError\<close> of the host is an error too.
\<close>

datatype error = Err string | Wrap error string

text \<open>\<^verbatim>\<open>err.Error()\<close>: a wrapped error prints its message, a colon and its cause.\<close>

fun Error_text :: "error \<Rightarrow> string" where
  "Error_text (Err s) = s"
| "Error_text (Wrap e msg) = msg @ '': '' @ Error_text e"

text \<open>The one run-time panic this file can raise: writing or reading through a nil pointer.\<close>

datatype panic = NilDereference

section \<open>Go's strings and unicode/utf8 functions used by config.go\<close>

text \<open>
  A Go string is a sequence of bytes: \<open>string\<close>, with \<open>of_char\<close> reading a byte.
  \<^verbatim>\<open>utf8.RuneError\<close> is U+FFFD.
\<close>

definition RuneError :: nat where
  "RuneError = 0xFFFD"

text \<open>
  \<^verbatim>\<open>utf8.DecodeRuneInString\<close>: the first rune of \<open>s\<close> and its width in bytes;
  \<open>(RuneError, 0)\<close> for the empty string and \<open>(RuneError, 1)\<close> for an encoding that is
  not well formed (a stray continuation byte, an overlong form, a surrogate, a value above
  U+10FFFF, a truncated sequence).
\<close>

definition continuation :: "nat \<Rightarrow> bool" where
  "continuation b = (0x80 \<le> b \<and> b \<le> 0xBF)"

text \<open>
  The bytes after a leading byte \<open>s0\<close> that announces \<open>sz\<close> bytes and accepts a
  second byte between \<open>lo\<close> and \<open>hi\<close> (the library reads both from its tables
  \<^verbatim>\<open>first\<close> and \<^verbatim>\<open>acceptRanges\<close>); \<open>s\<close> is the string after \<open>s0\<close>.
\<close>

definition decode_multibyte :: "nat \<Rightarrow> nat \<Rightarrow> nat \<Rightarrow> nat \<Rightarrow> string \<Rightarrow> nat \<times> nat" where
  "decode_multibyte s0 sz lo hi s =
     (if length s + 1 < sz then (RuneError, 1)
      else
        let s1 = (of_char (s ! 0) :: nat) in
        if s1 < lo \<or> hi < s1 then (RuneError, 1)
        else if sz \<le> 2 then ((s0 mod 0x20) * 0x40 + s1 mod 0x40, 2)
        else
          let s2 = (of_char (s ! 1) :: nat) in
          if \<not> continuation s2 then (RuneError, 1)
          else if sz \<le> 3 then
            ((s0 mod 0x10) * 0x1000 + (s1 mod 0x40) * 0x40 + s2 mod 0x40, 3)
          else
            let s3 = (of_char (s ! 2) :: nat) in
            if \<not> continuation s3 then (RuneError, 1)
            else ((s0 mod 0x08) * 0x40000 + (s1 mod 0x40) * 0x1000
                   + (s2 mod 0x40) * 0x40 + s3 mod 0x40, 4))"

fun DecodeRune :: "string \<Rightarrow> nat \<times> nat" where
  "DecodeRune [] = (RuneError, 0)"
| "DecodeRune (c0 # s) =
     (let s0 = (of_char c0 :: nat) in
      if s0 < 0x80 then (s0, 1)
      else if s0 < 0xC2 \<or> 0xF4 < s0 then (RuneError, 1)
      else decode_multibyte s0
             (if s0 < 0xE0 then 2 else if s0 < 0xF0 then 3 else 4)
             (if s0 = 0xE0 then 0xA0 else if s0 = 0xF0 then 0x90 else 0x80)
             (if s0 = 0xED then 0x9F else if s0 = 0xF4 then 0x8F else 0xBF)
             s)"

text \<open>\<^verbatim>\<open>utf8.RuneStart\<close>: the byte is not a continuation byte.\<close>

definition RuneStart :: "char \<Rightarrow> bool" where
  "RuneStart c = (\<not> continuation (of_char c))"

text \<open>
  \<^verbatim>\<open>utf8.DecodeLastRuneInString\<close>: the last rune of \<open>s\<close> and its width. For a last
  byte outside ASCII it steps back over at most three more bytes to the nearest rune start,
  decodes from there, and answers \<open>(RuneError, 1)\<close> unless that rune ends where \<open>s\<close> ends.
\<close>

definition rune_start_back :: "string \<Rightarrow> nat option" where
  "rune_start_back s =
     (let n = length s in
      if 2 \<le> n \<and> RuneStart (s ! (n - 2)) then Some (n - 2)
      else if 3 \<le> n \<and> RuneStart (s ! (n - 3)) then Some (n - 3)
      else if 4 \<le> n \<and> RuneStart (s ! (n - 4)) then Some (n - 4)
      else None)"

definition DecodeLastRune :: "string \<Rightarrow> nat \<times> nat" where
  "DecodeLastRune s =
     (if s = [] then (RuneError, 0)
      else
        let r = (of_char (last s) :: nat) in
        if r < 0x80 then (r, 1)
        else
          (case rune_start_back s of
             None \<Rightarrow> (RuneError, 1)
           | Some start \<Rightarrow>
               (let (r, size) = DecodeRune (drop start s) in
                if start + size \<noteq> length s then (RuneError, 1) else (r, size))))"

text \<open>\<^verbatim>\<open>unicode.IsSpace\<close>: the code points with Unicode's White_Space property.\<close>

definition IsSpace :: "nat \<Rightarrow> bool" where
  "IsSpace r =
     ((0x09 \<le> r \<and> r \<le> 0x0D) \<or> r = 0x20 \<or> r = 0x85 \<or> r = 0xA0 \<or> r = 0x1680
      \<or> (0x2000 \<le> r \<and> r \<le> 0x200A) \<or> r = 0x2028 \<or> r = 0x2029 \<or> r = 0x202F
      \<or> r = 0x205F \<or> r = 0x3000)"

lemma decode_multibyte_size_pos: "0 < snd (decode_multibyte s0 sz lo hi s)"
  by (simp add: decode_multibyte_def Let_def)

lemma DecodeRune_size_pos: "s \<noteq> [] \<Longrightarrow> 0 < snd (DecodeRune s)"
proof (cases s)
  case Nil
  assume "s \<noteq> []"
  with Nil show ?thesis by simp
next
  case (Cons c0 s')
  show ?thesis
    unfolding Cons DecodeRune.simps Let_def
    by (simp only: if_distrib [of snd] snd_conv decode_multibyte_size_pos if_cancel
          zero_less_one simp_thms split: if_split)
qed

lemma rune_start_back_less: "rune_start_back s = Some start \<Longrightarrow> start < length s"
  by (auto simp: rune_start_back_def Let_def split: if_splits)

lemma DecodeLastRune_size_pos: "s \<noteq> [] \<Longrightarrow> 0 < snd (DecodeLastRune s)"
proof (cases "rune_start_back s")
  case None
  assume "s \<noteq> []"
  with None show ?thesis
    by (simp add: DecodeLastRune_def Let_def)
next
  case (Some start)
  assume "s \<noteq> []"
  from Some have "drop start s \<noteq> []"
    using rune_start_back_less by fastforce
  then have "0 < snd (DecodeRune (drop start s))"
    by (rule DecodeRune_size_pos)
  with Some \<open>s \<noteq> []\<close> show ?thesis
    by (cases "DecodeRune (drop start s)") (simp add: DecodeLastRune_def Let_def)
qed

text \<open>
  \<^verbatim>\<open>strings.TrimLeftFunc\<close> and \<^verbatim>\<open>strings.TrimRightFunc\<close>: drop runes from the front
  (from the back) while \<open>f\<close> holds of them, the runes read by \<open>DecodeRune\<close> (by
  \<open>DecodeLastRune\<close>). config.go uses them through \<^verbatim>\<open>TrimSpace\<close> only, with
  \<open>f = IsSpace\<close>, which does not hold of \<open>RuneError\<close>.
\<close>

function TrimLeftFunc :: "string \<Rightarrow> (nat \<Rightarrow> bool) \<Rightarrow> string" where
  "TrimLeftFunc s f =
     (if s = [] then []
      else if f (fst (DecodeRune s)) then TrimLeftFunc (drop (snd (DecodeRune s)) s) f
      else s)"
  by pat_completeness auto
termination
  by (relation "measure (\<lambda>(s, f). length s)") (auto simp: DecodeRune_size_pos)

function TrimRightFunc :: "string \<Rightarrow> (nat \<Rightarrow> bool) \<Rightarrow> string" where
  "TrimRightFunc s f =
     (if s = [] then []
      else if f (fst (DecodeLastRune s))
        then TrimRightFunc (take (length s - snd (DecodeLastRune s)) s) f
      else s)"
  by pat_completeness auto
termination
  by (relation "measure (\<lambda>(s, f). length s)") (auto simp: DecodeLastRune_size_pos)

declare TrimLeftFunc.simps [simp del] TrimRightFunc.simps [simp del]

text \<open>
  \<^verbatim>\<open>strings.TrimSpace\<close>: all leading and trailing white space removed, as Unicode
  defines it. (The library scans ASCII bytes first and falls back to the two functions
  above at the first byte outside ASCII; the result is the same.)
\<close>

definition TrimSpace :: "string \<Rightarrow> string" where
  "TrimSpace s = TrimRightFunc (TrimLeftFunc s IsSpace) IsSpace"

text \<open>
  \<^verbatim>\<open>strings.Split(s, sep)\<close> for a separator of one byte, the only use in config.go
  (\<^verbatim>\<open>","\<close>): the pieces between the separators, one more than there are separators.
\<close>

fun Split :: "string \<Rightarrow> char \<Rightarrow> string list" where
  "Split [] sep = [[]]"
| "Split (c # s) sep =
     (if c = sep then [] # Split s sep
      else (case Split s sep of [] \<Rightarrow> [[c]] | t # ts \<Rightarrow> (c # t) # ts))"

text \<open>
  What \<^verbatim>\<open>encoding/json\<close> makes of a string on the way through a JSON text: the
  encoder coerces it to valid UTF-8, writing U+FFFD (the bytes EF BF BD) for every byte
  that \<^verbatim>\<open>DecodeRuneInString\<close> reports as \<open>(RuneError, 1)\<close>; the decoder reads the
  result back unchanged.
\<close>

function coerce_utf8 :: "string \<Rightarrow> string" where
  "coerce_utf8 s =
     (if s = [] then []
      else if DecodeRune s = (RuneError, 1)
        then [CHR 0xEF, CHR 0xBF, CHR 0xBD] @ coerce_utf8 (drop 1 s)
      else take (snd (DecodeRune s)) s @ coerce_utf8 (drop (snd (DecodeRune s)) s))"
  by pat_completeness auto
termination
  by (relation "measure length") (auto simp: DecodeRune_size_pos)

declare coerce_utf8.simps [simp del]

text \<open>
  \<^verbatim>\<open>sort.Slice(x, less)\<close> sorts \<open>x\<close> in place by \<open>less\<close> (here \<open>lt\<close>). The library does not
  promise an order among elements of which neither is less than the other; this model is
  the insertion sort that keeps them in their order.
\<close>

fun insert_less :: "('a \<Rightarrow> 'a \<Rightarrow> bool) \<Rightarrow> 'a \<Rightarrow> 'a list \<Rightarrow> 'a list" where
  "insert_less lt x [] = [x]"
| "insert_less lt x (y # ys) =
     (if lt y x then y # insert_less lt x ys else x # y # ys)"

definition sort_Slice :: "('a \<Rightarrow> 'a \<Rightarrow> bool) \<Rightarrow> 'a list \<Rightarrow> 'a list" where
  "sort_Slice lt xs = foldr (insert_less lt) xs []"

section \<open>The data of config.go\<close>

text \<open>
  The value \<^verbatim>\<open>json.Unmarshal\<close> builds in an \<^verbatim>\<open>interface{}\<close>: nil, a bool, a
  number, a string, a slice or a \<^verbatim>\<open>map[string]interface{}\<close> (held as the list of its
  entries). It stands for the JSON text as well, which carries the same tree.
\<close>

datatype jvalue =
    JNull
  | JBool bool
  | JNumber int
  | JString string
  | JArray "jvalue list"
  | JObject "(string \<times> jvalue) list"

text \<open>
  \<^verbatim>\<open>type Config struct\<close>. \<open>'l\<close> is \<^verbatim>\<open>autolink.Autolink\<close>, whose declaration is
  in another package. \<open>AdminUserIds\<close> is a \<^verbatim>\<open>map[string]struct{}\<close>, that is a set;
  a nil slice and an empty one are both \<open>[]\<close>, a nil map and an empty one both \<open>{}\<close>.
\<close>

record 'l Config =
  EnableAdminCommand :: bool
  EnableOnUpdate :: bool
  PluginAdmins :: string
  Links :: "'l list"
  AdminUserIds :: "string set"

text \<open>
  What config.go uses of package \<^verbatim>\<open>autolink\<close>, taken as parameters:
  \<^verbatim>\<open>(*Autolink).Compile\<close>, which returns an error or nil and leaves the link as the
  compilation made it; \<^verbatim>\<open>Autolink.DisplayName\<close>; and the JSON encoding of a link
  (the tree \<^verbatim>\<open>json.Marshal\<close> writes for it, or the error it stops with).
\<close>

record 'l autolink =
  Compile :: "'l \<Rightarrow> error option \<times> 'l"
  DisplayName :: "'l \<Rightarrow> string"
  link_json :: "'l \<Rightarrow> error + jvalue"

subsection \<open>The command the plugin registers\<close>

text \<open>
  \<^verbatim>\<open>model.AutocompleteData\<close> with its arguments and subcommands. An argument is a
  text argument (help text, hint, pattern) or a static list (help text, required, items);
  an item of a list is its help text, hint and item.
\<close>

datatype ListItem = AutocompleteListItem string string string

datatype Arg =
    TextArgument string string string
  | StaticListArgument string bool "ListItem list"

datatype AutocompleteData =
  AutocompleteData string string string "Arg list" "AutocompleteData list"

fun NewAutocompleteData :: "string \<Rightarrow> string \<Rightarrow> string \<Rightarrow> AutocompleteData" where
  "NewAutocompleteData trigger hint helpText = AutocompleteData trigger hint helpText [] []"

fun AddTextArgument :: "AutocompleteData \<Rightarrow> string \<Rightarrow> string \<Rightarrow> string \<Rightarrow> AutocompleteData" where
  "AddTextArgument (AutocompleteData t h ht args subs) helpText hint pattern =
     AutocompleteData t h ht (args @ [TextArgument helpText hint pattern]) subs"

fun AddStaticListArgument ::
  "AutocompleteData \<Rightarrow> string \<Rightarrow> bool \<Rightarrow> ListItem list \<Rightarrow> AutocompleteData" where
  "AddStaticListArgument (AutocompleteData t h ht args subs) helpText required items =
     AutocompleteData t h ht (args @ [StaticListArgument helpText required items]) subs"

fun AddCommand :: "AutocompleteData \<Rightarrow> AutocompleteData \<Rightarrow> AutocompleteData" where
  "AddCommand (AutocompleteData t h ht args subs) command =
     AutocompleteData t h ht args (subs @ [command])"

record Command =
  Trigger :: string
  CommandDisplayName :: string
  Description :: string
  AutoComplete :: bool
  AutoCompleteDesc :: string
  AutoCompleteHint :: string
  CommandAutocompleteData :: AutocompleteData

subsection \<open>The host and the plugin\<close>

text \<open>
  The calls config.go makes on \<^verbatim>\<open>plugin.API\<close>, with their arguments, in the order
  they are made. The save is the one call a function of config.go makes after it has
  changed the configuration, so its entry also holds the \<^verbatim>\<open>Config\<close> objects as they
  stand when the call is made: what \<^verbatim>\<open>getConfig\<close> reads while the host is saving.
\<close>

datatype 'l call =
    LoadPluginConfiguration_call
  | LogError_call string 'l string
  | LogWarn_call string string error
  | GetUser_call string
  | SavePluginConfig_call "(string \<times> jvalue) list" "nat \<Rightarrow> 'l Config"
  | RegisterCommand_call Command
  | UnregisterCommand_call string string

text \<open>
  What the host answers. \<open>LoadPluginConfiguration\<close> is the error or the configuration it
  decodes into the caller's variable; \<open>GetUser\<close> is the \<^verbatim>\<open>*model.AppError\<close> of the
  lookup (the user it returns is discarded by config.go); \<open>None\<close> is Go's nil error.
  Each answer is a function of the call's arguments: during one run the host gives the
  same answer to the same question.
\<close>

record 'l API =
  LoadPluginConfiguration :: "error + 'l Config"
  GetUser :: "string \<Rightarrow> error option"
  SavePluginConfig :: "(string \<times> jvalue) list \<Rightarrow> error option"
  RegisterCommand :: "Command \<Rightarrow> error option"
  UnregisterCommand :: "string \<Rightarrow> string \<Rightarrow> error option"

text \<open>
  The state the functions of config.go work on: the \<^verbatim>\<open>Config\<close> objects by address,
  and the calls made on the host so far. A \<^verbatim>\<open>*Config\<close> is \<open>None\<close> (nil) or
  \<open>Some\<close> address. The plugin holds such a pointer, \<^verbatim>\<open>p.conf\<close> (\<open>Plugin_conf\<close>); its lock orders
  concurrent callers and has no part in a sequential run.
\<close>

record 'l world =
  heap :: "nat \<Rightarrow> 'l Config"
  trace :: "'l call list"

record Plugin =
  Plugin_conf :: "nat option"

definition called :: "'l call \<Rightarrow> 'l world \<Rightarrow> 'l world" where
  "called e w = w\<lparr>trace := trace w @ [e]\<rparr>"

text \<open>Reading \<^verbatim>\<open>*conf\<close>, and the assignments \<^verbatim>\<open>*conf = c\<close> and \<^verbatim>\<open>conf.Links = links\<close>.\<close>

definition deref :: "'l world \<Rightarrow> nat option \<Rightarrow> panic + 'l Config" where
  "deref w ptr = (case ptr of None \<Rightarrow> Inl NilDereference | Some a \<Rightarrow> Inr (heap w a))"

definition assign :: "nat option \<Rightarrow> 'l Config \<Rightarrow> 'l world \<Rightarrow> panic + 'l world" where
  "assign ptr c w =
     (case ptr of
        None \<Rightarrow> Inl NilDereference
      | Some a \<Rightarrow> Inr (w\<lparr>heap := (heap w)(a := c)\<rparr>))"

definition assign_Links :: "nat option \<Rightarrow> 'l list \<Rightarrow> 'l world \<Rightarrow> panic + 'l world" where
  "assign_Links ptr links w =
     (case ptr of
        None \<Rightarrow> Inl NilDereference
      | Some a \<Rightarrow> Inr (w\<lparr>heap := (heap w)(a := (heap w a)\<lparr>Links := links\<rparr>)\<rparr>))"

section \<open>The functions of config.go\<close>

subsection \<open>getAutoCompleteData\<close>

definition getAutoCompleteData :: AutocompleteData where
  "getAutoCompleteData =
     (let autolink = NewAutocompleteData ''autolink'' ''[command]''
            ''Available command : add, delete, disable, enable, list, set, test'';
          add = NewAutocompleteData ''add'' '''' ''Add a new link with a given name'';
          add = AddTextArgument add ''Name for a new link'' ''[name]'' '''';
          autolink = AddCommand autolink add;
          delete = NewAutocompleteData ''delete'' '''' ''Delete a link with a given name'';
          delete = AddTextArgument delete ''Name of the link to delete'' ''[name]'' '''';
          autolink = AddCommand autolink delete;
          disable = NewAutocompleteData ''disable'' '''' ''Disable a link with a given name'';
          disable = AddTextArgument disable ''Name of the link to disable'' ''[name]'' '''';
          autolink = AddCommand autolink disable;
          enable = NewAutocompleteData ''enable'' '''' ''Enable a link with a given name'';
          enable = AddTextArgument enable ''Name of the link to enable'' ''[name]'' '''';
          autolink = AddCommand autolink enable;
          list_cmd = NewAutocompleteData ''list'' '''' ''List all configured links'';
          list_cmd = AddStaticListArgument list_cmd
            ''List the link which match with the given condition'' False
            [AutocompleteListItem
               (''If '' @ [CHR 0x60] @ ''name'' @ [CHR 0x60]
                 @ '' of a link is provided, it will only list a configuration of ''
                 @ [CHR 0x60] @ ''name'' @ [CHR 0x60] @ '' link '')
               ''(optional)'' ''[name]'',
             AutocompleteListItem
               ''List configuration of link matched with the given template''
               ''(optional)'' ''Template'',
             AutocompleteListItem
               ''List configuration of link matched with the given pattern''
               ''(optional)'' ''Pattern''];
          autolink = AddCommand autolink list_cmd;
          set_cmd = NewAutocompleteData ''set'' '''' ''Set a field of a link with a given value'';
          set_cmd = AddTextArgument set_cmd ''Name of a link to set'' ''[name]'' '''';
          set_cmd = AddStaticListArgument set_cmd ''A name of a field to set a value'' False
            [AutocompleteListItem
               (''Set the '' @ [CHR 0x60] @ ''Template'' @ [CHR 0x60] @ '' field'') '''' ''Template'',
             AutocompleteListItem
               (''Set the '' @ [CHR 0x60] @ ''Pattern'' @ [CHR 0x60] @ '' field'') '''' ''Pattern'',
             AutocompleteListItem
               (''If true uses the '' @ [CHR 0x5C] @ ''b word boundaries'') '''' ''WordMatch'',
             AutocompleteListItem
               ''If true applies changes to posts created by bot accounts.'' ''''
               ''ProcessBotPosts'',
             AutocompleteListItem ''team/channel the autolink applies to'' '''' ''Scope''];
          autolink = AddCommand autolink set_cmd;
          test = NewAutocompleteData ''test'' '''' ''Test a link on the text provided'';
          test = AddTextArgument test ''Name of a link to test with'' ''[name]'' '''';
          test = AddTextArgument test ''Sample text which the link applies'' ''[sample text]'' '''';
          autolink = AddCommand autolink test;
          help = NewAutocompleteData ''help'' '''' ''Autolink plugin slash command help'';
          autolink = AddCommand autolink help
      in autolink)"

text \<open>The \<^verbatim>\<open>model.Command\<close> that \<^verbatim>\<open>OnConfigurationChange\<close> registers.\<close>

definition autolink_Command :: Command where
  "autolink_Command =
     \<lparr>Trigger = ''autolink'',
      CommandDisplayName = ''Autolink'',
      Description = ''Autolink administration.'',
      AutoComplete = True,
      AutoCompleteDesc = ''Available commands: add, delete, disable, enable, list, set, test'',
      AutoCompleteHint = ''[command]'',
      CommandAutocompleteData = getAutoCompleteData\<rparr>"

subsection \<open>getConfig, GetLinks, UpdateConfig\<close>

definition getConfig :: "Plugin \<Rightarrow> nat option" where
  "getConfig p = Plugin_conf p"

definition GetLinks :: "Plugin \<Rightarrow> 'l world \<Rightarrow> panic + 'l list" where
  "GetLinks p w = (case deref w (Plugin_conf p) of Inl pan \<Rightarrow> Inl pan | Inr c \<Rightarrow> Inr (Links c))"

definition UpdateConfig ::
  "Plugin \<Rightarrow> (nat option \<Rightarrow> 'l world \<Rightarrow> panic + 'l world) \<Rightarrow> 'l world \<Rightarrow> panic + 'l world" where
  "UpdateConfig p f w = f (Plugin_conf p) w"

subsection \<open>parsePluginAdminList\<close>

text \<open>
  The receiver is the local variable \<^verbatim>\<open>c\<close> of \<^verbatim>\<open>OnConfigurationChange\<close>, so the
  function is modelled on the value and returns it. The loop over \<^verbatim>\<open>userIDs\<close>:
\<close>

fun parsePluginAdminList_loop ::
  "'l API \<Rightarrow> string list \<Rightarrow> 'l Config \<Rightarrow> 'l world \<Rightarrow> 'l Config \<times> 'l world" where
  "parsePluginAdminList_loop api [] c w = (c, w)"
| "parsePluginAdminList_loop api (userID # userIDs) c w =
     (let userID = TrimSpace userID;
          w = called (GetUser_call userID) w
      in case GetUser api userID of
           Some appErr \<Rightarrow>
             parsePluginAdminList_loop api userIDs c
               (called (LogWarn_call ''Error occurred while verifying userID'' userID appErr) w)
         | None \<Rightarrow>
             parsePluginAdminList_loop api userIDs
               (c\<lparr>AdminUserIds := insert userID (AdminUserIds c)\<rparr>) w)"

definition parsePluginAdminList :: "'l API \<Rightarrow> 'l Config \<Rightarrow> 'l world \<Rightarrow> 'l Config \<times> 'l world" where
  "parsePluginAdminList api c w =
     (let c = c\<lparr>AdminUserIds := {}\<rparr> in
      if length (PluginAdmins c) = 0 then (c, w)
      else parsePluginAdminList_loop api (Split (PluginAdmins c) CHR '','') c w)"

subsection \<open>OnConfigurationChange\<close>

text \<open>The loop that compiles \<^verbatim>\<open>c.Links[i]\<close> in place and logs each failure.\<close>

fun compile_loop :: "'l autolink \<Rightarrow> 'l list \<Rightarrow> 'l world \<Rightarrow> 'l list \<times> 'l world" where
  "compile_loop al [] w = ([], w)"
| "compile_loop al (l # ls) w =
     (case Compile al l of
        (Some err, l') \<Rightarrow>
          (let w = called (LogError_call ''Error creating autolinker'' l' (Error_text err)) w;
               (ls', w) = compile_loop al ls w
           in (l' # ls', w))
      | (None, l') \<Rightarrow>
          (let (ls', w) = compile_loop al ls w in (l' # ls', w)))"

text \<open>
  The body of the goroutine that \<^verbatim>\<open>OnConfigurationChange\<close> starts before it returns;
  \<open>c\<close> is the variable it captures. What the host answers is assigned to \<^verbatim>\<open>_\<close>.
\<close>

datatype 'l goroutine = Registration "'l Config"

fun run :: "'l API \<Rightarrow> 'l goroutine \<Rightarrow> 'l world \<Rightarrow> 'l world" where
  "run api (Registration c) w =
     (if EnableAdminCommand c then
        (case RegisterCommand api autolink_Command of _ \<Rightarrow>
           called (RegisterCommand_call autolink_Command) w)
      else
        (case UnregisterCommand api '''' ''autolink'' of _ \<Rightarrow>
           called (UnregisterCommand_call '''' ''autolink'') w))"

text \<open>
  The result is a panic, or what the function returns (nil or an error), the goroutines
  it started and the state it leaves.
\<close>

definition OnConfigurationChange ::
  "'l autolink \<Rightarrow> 'l API \<Rightarrow> Plugin \<Rightarrow> 'l world
     \<Rightarrow> panic + (error option \<times> 'l goroutine list \<times> 'l world)" where
  "OnConfigurationChange al api p w =
     (let w = called LoadPluginConfiguration_call w in
      case LoadPluginConfiguration api of
        Inl err \<Rightarrow> Inr (Some (Wrap err ''failed to load plugin configuration''), [], w)
      | Inr c \<Rightarrow>
          (let (links, w) = compile_loop al (Links c) w;
               c = c\<lparr>Links := links\<rparr>;
               (c, w) = parsePluginAdminList api c w
           in case UpdateConfig p (\<lambda>conf. assign conf c) w of
                Inl pan \<Rightarrow> Inl pan
              | Inr w \<Rightarrow> Inr (None, [Registration c], w)))"

subsection \<open>ToMap\<close>

text \<open>
  \<^verbatim>\<open>json.Marshal(conf)\<close> for a \<^verbatim>\<open>*Config\<close>: null for nil; else an object with the
  fields in their order under the names of their tags, none for \<open>AdminUserIds\<close>, whose
  tag is \<^verbatim>\<open>json:"-"\<close>. The first link that fails to encode ends it with that error.
  (For a nil \<open>Links\<close> the text has null where this has the empty array.)
\<close>

fun marshal_links :: "'l autolink \<Rightarrow> 'l list \<Rightarrow> error + jvalue list" where
  "marshal_links al [] = Inr []"
| "marshal_links al (l # ls) =
     (case link_json al l of
        Inl err \<Rightarrow> Inl err
      | Inr j \<Rightarrow> (case marshal_links al ls of Inl err \<Rightarrow> Inl err | Inr js \<Rightarrow> Inr (j # js)))"

definition json_Marshal :: "'l autolink \<Rightarrow> nat option \<Rightarrow> 'l world \<Rightarrow> error + jvalue" where
  "json_Marshal al ptr w =
     (case ptr of
        None \<Rightarrow> Inr JNull
      | Some a \<Rightarrow>
          (let c = heap w a in
           case marshal_links al (Links c) of
             Inl err \<Rightarrow> Inl err
           | Inr js \<Rightarrow>
               Inr (JObject
                 [(''enableadmincommand'', JBool (EnableAdminCommand c)),
                  (''enableonupdate'', JBool (EnableOnUpdate c)),
                  (''pluginadmins'', JString (coerce_utf8 (PluginAdmins c))),
                  (''links'', JArray js)])))"

text \<open>
  \<^verbatim>\<open>json.Unmarshal(data, &out)\<close> for a nil \<^verbatim>\<open>map[string]interface{}\<close>: the entries
  of an object, a later one replacing an earlier one of the same key; the nil map for
  null; an error for any other text.
\<close>

fun put :: "string \<Rightarrow> jvalue \<Rightarrow> (string \<times> jvalue) list \<Rightarrow> (string \<times> jvalue) list" where
  "put k v [] = [(k, v)]"
| "put k v ((k', v') # m) = (if k = k' then (k, v) # m else (k', v') # put k v m)"

definition json_Unmarshal :: "jvalue \<Rightarrow> error + (string \<times> jvalue) list" where
  "json_Unmarshal data =
     (case data of
        JObject kvs \<Rightarrow> Inr (foldl (\<lambda>m (k, v). put k v m) [] kvs)
      | JNull \<Rightarrow> Inr []
      | _ \<Rightarrow> Inl (Err ''json: cannot unmarshal into Go value of type map[string]interface {}''))"

definition ToMap :: "'l autolink \<Rightarrow> nat option \<Rightarrow> 'l world \<Rightarrow> error + (string \<times> jvalue) list" where
  "ToMap al conf w =
     (case json_Marshal al conf w of
        Inl err \<Rightarrow> Inl err
      | Inr data \<Rightarrow>
          (case json_Unmarshal data of
             Inl err \<Rightarrow> Inl err
           | Inr out \<Rightarrow> Inr out))"

subsection \<open>SaveLinks\<close>

definition SaveLinks ::
  "'l autolink \<Rightarrow> 'l API \<Rightarrow> Plugin \<Rightarrow> 'l list \<Rightarrow> 'l world \<Rightarrow> panic + (error option \<times> 'l world)" where
  "SaveLinks al api p links w =
     (case UpdateConfig p (\<lambda>conf. assign_Links conf links) w of
        Inl pan \<Rightarrow> Inl pan
      | Inr w \<Rightarrow>
          (case ToMap al (getConfig p) w of
             Inl err \<Rightarrow> Inr (Some (Wrap err ''unable convert config to map''), w)
           | Inr configMap \<Rightarrow>
               (let w = called (SavePluginConfig_call configMap (heap w)) w in
                case SavePluginConfig api configMap of
                  Some appErr \<Rightarrow> Inr (Some (Wrap appErr ''unable to save links''), w)
                | None \<Rightarrow> Inr (None, w))))"

subsection \<open>Sorted\<close>

text \<open>
  \<^verbatim>\<open>sorted := conf\<close> copies the pointer, so both names are one object.
  \<^verbatim>\<open>append([]autolink.Autolink{}, conf.Links...)\<close> is a new slice with the same
  elements; it becomes the object's \<open>Links\<close>, and \<^verbatim>\<open>sort.Slice\<close> then sorts that
  slice in place, by \<^verbatim>\<open>strings.Compare\<close> of the display names (the order of the bytes).
\<close>

definition Sorted :: "'l autolink \<Rightarrow> nat option \<Rightarrow> 'l world \<Rightarrow> panic + (nat option \<times> 'l world)" where
  "Sorted al conf w =
     (let sorted = conf in
      case deref w conf of
        Inl pan \<Rightarrow> Inl pan
      | Inr c \<Rightarrow>
          (case assign_Links sorted ([] @ Links c) w of
             Inl pan \<Rightarrow> Inl pan
           | Inr w \<Rightarrow>
               (case deref w conf of
                  Inl pan \<Rightarrow> Inl pan
                | Inr c \<Rightarrow>
                    (case assign_Links conf
                            (sort_Slice (\<lambda>a b. DisplayName al a < DisplayName al b) (Links c)) w of
                       Inl pan \<Rightarrow> Inl pan
                     | Inr w \<Rightarrow> Inr (conf, w)))))"

section \<open>The host's reload of a saved configuration\<close>






section \<open>Reading a trace\<close>

text \<open>The identities looked up, in order, and the entries that are log calls.\<close>

fun lookups :: "'l call list \<Rightarrow> string list" where
  "lookups [] = []"
| "lookups (GetUser_call userID # tr) = userID # lookups tr"
| "lookups (_ # tr) = lookups tr"

fun is_log :: "'l call \<Rightarrow> bool" where
  "is_log (LogError_call msg l err) = True"
| "is_log (LogWarn_call msg userID err) = True"
| "is_log _ = False"

text \<open>
  The calls \<^verbatim>\<open>parsePluginAdminList\<close> makes for one token once it is trimmed: the
  lookup, and the warning when the lookup fails.
\<close>

definition lookup_calls :: "'l API \<Rightarrow> string \<Rightarrow> 'l call list" where
  "lookup_calls api userID =
     GetUser_call userID #
       (case GetUser api userID of
          Some appErr \<Rightarrow> [LogWarn_call ''Error occurred while verifying userID'' userID appErr]
        | None \<Rightarrow> [])"

text \<open>The trimmed tokens of \<open>us\<close> that the host's lookup accepts.\<close>

definition admitted :: "'l API \<Rightarrow> string list \<Rightarrow> string set" where
  "admitted api us = {u \<in> set (map TrimSpace us). GetUser api u = None}"

text \<open>
  The configuration a loaded one becomes: every link as \<open>Compile\<close> leaves it, and the
  admin set of the trimmed tokens that the host's lookup accepts.
\<close>

definition compiled :: "'l autolink \<Rightarrow> 'l API \<Rightarrow> 'l Config \<Rightarrow> 'l Config" where
  "compiled al api c =
     c\<lparr>Links := map (\<lambda>l. snd (Compile al l)) (Links c),
       AdminUserIds :=
         (if PluginAdmins c = [] then {}
          else {u \<in> set (map TrimSpace (Split (PluginAdmins c) CHR '','')). GetUser api u = None})\<rparr>"

section \<open>Concrete inputs\<close>

text \<open>
  Links that are their own display names; the empty one fails to compile. A link is
  encoded as its name, a JSON string, and decoded from it.
\<close>

definition name_links :: "string autolink" where
  "name_links =
     \<lparr>Compile = (\<lambda>l. (if l = [] then Some (Err ''empty pattern'') else None, l)),
      DisplayName = (\<lambda>l. l),
      link_json = (\<lambda>l. Inr (JString (coerce_utf8 l)))\<rparr>"


definition loaded_Config :: "string Config" where
  "loaded_Config =
     \<lparr>EnableAdminCommand = True, EnableOnUpdate = False, PluginAdmins = ''u1, u2 ,u3'',
      Links = [''b'', '''', ''a''], AdminUserIds = {}\<rparr>"

definition zero_Config :: "string Config" where
  "zero_Config =
     \<lparr>EnableAdminCommand = False, EnableOnUpdate = False, PluginAdmins = [],
      Links = [], AdminUserIds = {}\<rparr>"

definition fresh_world :: "string world" where
  "fresh_world = \<lparr>heap = (\<lambda>a. zero_Config), trace = []\<rparr>"

definition the_Plugin :: Plugin where
  "the_Plugin = \<lparr>Plugin_conf = Some 0\<rparr>"

text \<open>A host that knows the users \<open>u1\<close> and \<open>u3\<close> only and refuses to save and to register.\<close>

definition refusing_API :: "string API" where
  "refusing_API =
     \<lparr>LoadPluginConfiguration = Inr loaded_Config,
      GetUser = (\<lambda>userID. if userID = ''u1'' \<or> userID = ''u3'' then None
                          else Some (Err ''not found'')),
      SavePluginConfig = (\<lambda>m. Some (Err ''save refused'')),
      RegisterCommand = (\<lambda>c. Some (Err ''register refused'')),
      UnregisterCommand = (\<lambda>teamID trigger. Some (Err ''unregister refused''))\<rparr>"

section \<open>Facts about the library functions and the loops\<close>

lemma coerce_utf8_empty: "coerce_utf8 [] = []"
  by (simp add: coerce_utf8.simps)

lemma coerce_utf8_ascii: "\<forall>c \<in> set s. (of_char c :: nat) < 0x80 \<Longrightarrow> coerce_utf8 s = s"
proof (induction s)
  case Nil
  then show ?case by (simp add: coerce_utf8.simps)
next
  case (Cons c s)
  then have "(of_char c :: nat) < 0x80" and "coerce_utf8 s = s"
    by simp_all
  then show ?case
    by (subst coerce_utf8.simps) (simp add: RuneError_def)
qed

lemma insert_less_count:
  "count_list (insert_less lt x ys) y = count_list (x # ys) y"
  by (induction ys) auto

lemma sort_Slice_count: "count_list (sort_Slice lt xs) y = count_list xs y"
  by (induction xs) (simp_all add: sort_Slice_def insert_less_count)

lemma insert_less_set: "set (insert_less lt x ys) = insert x (set ys)"
  by (induction ys) auto

lemma insert_less_sorted:
  fixes f :: "'a \<Rightarrow> 'b::linorder"
  shows "sorted (map f ys) \<Longrightarrow> sorted (map f (insert_less (\<lambda>a b. f a < f b) x ys))"
  by (induction ys) (auto simp: insert_less_set)

lemma sort_Slice_sorted:
  fixes f :: "'a \<Rightarrow> 'b::linorder"
  shows "sorted (map f (sort_Slice (\<lambda>a b. f a < f b) xs))"
  by (induction xs) (simp_all add: sort_Slice_def insert_less_sorted)

lemma called_simps [simp]: "heap (called e w) = heap w" "trace (called e w) = trace w @ [e]"
  by (simp_all add: called_def)

lemma compile_loop_links: "fst (compile_loop al ls w) = map (\<lambda>l. snd (Compile al l)) ls"
  by (induction ls arbitrary: w) (auto simp: split_beta Let_def split: option.splits)

lemma compile_loop_heap: "heap (snd (compile_loop al ls w)) = heap w"
  by (induction ls arbitrary: w) (auto simp: split_beta Let_def split: option.splits)

lemma admitted_Nil: "admitted api [] = {}"
  by (simp add: admitted_def)

lemma admitted_Cons:
  "admitted api (u # us) =
     (if GetUser api (TrimSpace u) = None then insert (TrimSpace u) (admitted api us)
      else admitted api us)"
  by (auto simp: admitted_def)

lemma loop_eq:
  "parsePluginAdminList_loop api us c w =
     (c\<lparr>AdminUserIds := AdminUserIds c \<union> admitted api us\<rparr>,
      w\<lparr>trace := trace w @ concat (map (\<lambda>u. lookup_calls api (TrimSpace u)) us)\<rparr>)"
proof (induction us arbitrary: c w)
  case Nil
  then show ?case by (simp add: admitted_Nil)
next
  case (Cons u us)
  show ?case
    by (cases "GetUser api (TrimSpace u)")
       (simp_all add: Cons.IH Let_def lookup_calls_def called_def admitted_Cons)
qed

lemma parsePluginAdminList_eq:
  "parsePluginAdminList api c w =
     (if PluginAdmins c = [] then (c\<lparr>AdminUserIds := {}\<rparr>, w)
      else (c\<lparr>AdminUserIds := admitted api (Split (PluginAdmins c) CHR '','')\<rparr>,
            w\<lparr>trace := trace w @
                 concat (map (\<lambda>u. lookup_calls api (TrimSpace u))
                   (Split (PluginAdmins c) CHR '',''))\<rparr>))"
  by (simp add: parsePluginAdminList_def Let_def loop_eq)

lemmas trim_eval =
  TrimSpace_def TrimLeftFunc.simps TrimRightFunc.simps DecodeLastRune_def IsSpace_def Let_def

lemma TrimSpace_u1: "TrimSpace ''u1'' = ''u1''"
  by (simp add: trim_eval)

lemma TrimSpace_u2: "TrimSpace '' u2 '' = ''u2''"
  by (simp add: trim_eval)

lemma TrimSpace_u3: "TrimSpace ''u3'' = ''u3''"
  by (simp add: trim_eval)

lemma TrimSpace_blank: "TrimSpace '' '' = []"
  by (simp add: trim_eval)

lemma lookups_append: "lookups (xs @ ys) = lookups xs @ lookups ys"
  by (induction xs rule: lookups.induct) simp_all

lemma lookups_lookup_calls:
  "lookups (concat (map (\<lambda>u. lookup_calls api (TrimSpace u)) us)) = map TrimSpace us"
  by (induction us) (simp_all add: lookup_calls_def lookups_append split: option.splits)

section \<open>Admin resolution\<close>

text \<open>
  Claim C3. For every raw admin list, \<^verbatim>\<open>parsePluginAdminList\<close> splits it on commas and
  trims each token; its admin set is exactly the trimmed tokens whose lookup succeeds, and
  on the host it makes, token by token, the lookup and then a warning where the lookup
  failed, and nothing else (for the empty list: no token, the empty set). In particular
  for \<^verbatim>\<open>"u1, u2 ,u3"\<close>, when the lookups of u1 and u3 succeed and that of u2 fails, the
  admin set is {u1, u3}, with one warning, for u2.
\<close>

theorem parsePluginAdminList_admits:
  "AdminUserIds (fst (parsePluginAdminList api c w)) =
     (if PluginAdmins c = [] then {}
      else {u \<in> set (map TrimSpace (Split (PluginAdmins c) CHR '','')). GetUser api u = None})
   \<and> snd (parsePluginAdminList api c w) =
       w\<lparr>trace := trace w @
         (if PluginAdmins c = [] then []
          else concat (map (\<lambda>u. lookup_calls api (TrimSpace u))
                 (Split (PluginAdmins c) CHR '','')))\<rparr>
   \<and> (PluginAdmins c = ''u1, u2 ,u3'' \<and> GetUser api ''u1'' = None
        \<and> GetUser api ''u2'' = Some e \<and> GetUser api ''u3'' = None \<longrightarrow>
      AdminUserIds (fst (parsePluginAdminList api c w)) = {''u1'', ''u3''}
      \<and> trace (snd (parsePluginAdminList api c w)) =
          trace w @ [GetUser_call ''u1'', GetUser_call ''u2'',
            LogWarn_call ''Error occurred while verifying userID'' ''u2'' e,
            GetUser_call ''u3''])"
proof (intro conjI impI)
  show "AdminUserIds (fst (parsePluginAdminList api c w)) =
     (if PluginAdmins c = [] then {}
      else {u \<in> set (map TrimSpace (Split (PluginAdmins c) CHR '','')). GetUser api u = None})"
    by (simp add: parsePluginAdminList_eq admitted_def)
  show "snd (parsePluginAdminList api c w) =
       w\<lparr>trace := trace w @
         (if PluginAdmins c = [] then []
          else concat (map (\<lambda>u. lookup_calls api (TrimSpace u))
                 (Split (PluginAdmins c) CHR '','')))\<rparr>"
    by (simp add: parsePluginAdminList_eq)
next
  assume ex: "PluginAdmins c = ''u1, u2 ,u3'' \<and> GetUser api ''u1'' = None
        \<and> GetUser api ''u2'' = Some e \<and> GetUser api ''u3'' = None"
  from ex show "AdminUserIds (fst (parsePluginAdminList api c w)) = {''u1'', ''u3''}"
    by (simp add: parsePluginAdminList_eq admitted_Cons admitted_Nil
          TrimSpace_u1 TrimSpace_u2 TrimSpace_u3)
  from ex show "trace (snd (parsePluginAdminList api c w)) =
          trace w @ [GetUser_call ''u1'', GetUser_call ''u2'',
            LogWarn_call ''Error occurred while verifying userID'' ''u2'' e,
            GetUser_call ''u3'']"
    by (simp add: parsePluginAdminList_eq lookup_calls_def
          TrimSpace_u1 TrimSpace_u2 TrimSpace_u3)
qed

text \<open>The example of C3 on a host that knows u1 and u3 and no other user.\<close>

theorem parsePluginAdminList_admits_witness:
  "PluginAdmins loaded_Config = ''u1, u2 ,u3'' \<and> GetUser refusing_API ''u1'' = None
   \<and> GetUser refusing_API ''u2'' = Some (Err ''not found'') \<and> GetUser refusing_API ''u3'' = None
   \<and> AdminUserIds (fst (parsePluginAdminList refusing_API loaded_Config fresh_world))
       = {''u1'', ''u3''}
   \<and> trace (snd (parsePluginAdminList refusing_API loaded_Config fresh_world)) =
        [GetUser_call ''u1'', GetUser_call ''u2'',
         LogWarn_call ''Error occurred while verifying userID'' ''u2'' (Err ''not found''),
         GetUser_call ''u3'']"
  using parsePluginAdminList_admits
    [of refusing_API loaded_Config fresh_world "Err ''not found''", THEN conjunct2, THEN conjunct2]
  by (simp add: loaded_Config_def refusing_API_def fresh_world_def)

text \<open>
  Claim C4, as the code has it. \<^verbatim>\<open>parsePluginAdminList\<close> looks up every token of a raw
  admin list that is not the empty string, in order and trimmed, whether or not the token
  is empty once trimmed: the only test, \<^verbatim>\<open>len(conf.PluginAdmins) == 0\<close>, is on the whole
  list. When the raw list is the empty string, the admin set is empty and no call at all
  is made on the host.
\<close>

theorem parsePluginAdminList_lookups:
  "lookups (trace (snd (parsePluginAdminList api c w))) =
     lookups (trace w) @
       (if PluginAdmins c = [] then [] else map TrimSpace (Split (PluginAdmins c) CHR '',''))
   \<and> (PluginAdmins c = [] \<longrightarrow> parsePluginAdminList api c w = (c\<lparr>AdminUserIds := {}\<rparr>, w))"
  by (simp add: parsePluginAdminList_eq lookups_append lookups_lookup_calls)

text \<open>The empty raw list: no lookup, the empty admin set, the host untouched.\<close>

theorem parsePluginAdminList_lookups_witness:
  "PluginAdmins zero_Config = []
   \<and> parsePluginAdminList refusing_API zero_Config fresh_world = (zero_Config, fresh_world)
   \<and> lookups (trace (snd (parsePluginAdminList refusing_API zero_Config fresh_world))) = []
   \<and> AdminUserIds (fst (parsePluginAdminList refusing_API zero_Config fresh_world)) = {}"
  using parsePluginAdminList_lookups [of refusing_API zero_Config fresh_world]
  by (simp add: zero_Config_def fresh_world_def)

text \<open>
  Claim C4 as the spec states it fails: for \<^verbatim>\<open>"u1, ,u3"\<close> the second token is empty once
  trimmed, and the empty identity is looked up between u1 and u3.
\<close>

theorem lookup_of_empty_token:
  "lookups (trace (snd (parsePluginAdminList refusing_API
      (zero_Config\<lparr>PluginAdmins := ''u1, ,u3''\<rparr>) fresh_world))) = [''u1'', [], ''u3'']"
  by (simp add: parsePluginAdminList_eq lookup_calls_def refusing_API_def fresh_world_def
        zero_Config_def TrimSpace_u1 TrimSpace_blank TrimSpace_u3)

section \<open>Configuration changes\<close>

lemma OnConfigurationChange_load_error:
  "LoadPluginConfiguration api = Inl err \<Longrightarrow>
   OnConfigurationChange al api p w =
     Inr (Some (Wrap err ''failed to load plugin configuration''), [],
          called LoadPluginConfiguration_call w)"
  by (simp add: OnConfigurationChange_def Let_def)

lemma OnConfigurationChange_loaded:
  assumes "LoadPluginConfiguration api = Inr c" and "Plugin_conf p = Some a"
  shows "\<exists>w'. OnConfigurationChange al api p w =
             Inr (None, [Registration (compiled al api c)], w')
           \<and> heap w' = (heap w)(a := compiled al api c)"
proof -
  obtain links w1 where cl: "compile_loop al (Links c) (called LoadPluginConfiguration_call w) = (links, w1)"
    by (cases "compile_loop al (Links c) (called LoadPluginConfiguration_call w)")
  have links: "links = map (\<lambda>l. snd (Compile al l)) (Links c)"
    using compile_loop_links [of al "Links c" "called LoadPluginConfiguration_call w"] cl by simp
  have h1: "heap w1 = heap w"
    using compile_loop_heap [of al "Links c" "called LoadPluginConfiguration_call w"] cl by simp
  show ?thesis
    using assms cl
    by (simp add: OnConfigurationChange_def Let_def UpdateConfig_def assign_def
          parsePluginAdminList_eq compiled_def links h1 admitted_def)
qed

lemma run_eq:
  "run api (Registration c) w =
     called (if EnableAdminCommand c then RegisterCommand_call autolink_Command
             else UnregisterCommand_call [] ''autolink'') w"
  by simp

text \<open>
  Claim C1. Whenever loading the raw configuration from the host fails,
  \<^verbatim>\<open>OnConfigurationChange\<close> returns that error wrapped and leaves the store as it was:
  every \<^verbatim>\<open>Config\<close> object is unchanged, so the active configuration is the previous
  one; the load is the only call made on the host (no lookup, no log entry); and no
  goroutine is started.
\<close>

theorem OnConfigurationChange_load_fails:
  assumes "LoadPluginConfiguration api = Inl err"
  shows "\<exists>w'. OnConfigurationChange al api p w =
             Inr (Some (Wrap err ''failed to load plugin configuration''), [], w')
           \<and> heap w' = heap w
           \<and> deref w' (getConfig p) = deref w (getConfig p)
           \<and> trace w' = trace w @ [LoadPluginConfiguration_call]"
  using assms by (simp add: OnConfigurationChange_load_error deref_def split: option.splits)

text \<open>C1 on a host whose load fails, with the plugin's configuration at address 0.\<close>

theorem OnConfigurationChange_load_fails_witness:
  "LoadPluginConfiguration (refusing_API\<lparr>LoadPluginConfiguration := Inl (Err ''malformed'')\<rparr>)
     = Inl (Err ''malformed'')
   \<and> (\<exists>w'. OnConfigurationChange name_links
              (refusing_API\<lparr>LoadPluginConfiguration := Inl (Err ''malformed'')\<rparr>)
              the_Plugin fresh_world =
             Inr (Some (Wrap (Err ''malformed'') ''failed to load plugin configuration''), [], w')
           \<and> heap w' = heap fresh_world
           \<and> deref w' (getConfig the_Plugin) = Inr zero_Config
           \<and> trace w' = [LoadPluginConfiguration_call])"
  using OnConfigurationChange_load_fails
    [of "refusing_API\<lparr>LoadPluginConfiguration := Inl (Err ''malformed'')\<rparr>" "Err ''malformed''"
        name_links the_Plugin fresh_world]
  by (simp add: refusing_API_def fresh_world_def deref_def getConfig_def the_Plugin_def)

text \<open>
  Claim C2. For every loaded configuration, and a plugin whose \<^verbatim>\<open>p.conf\<close> is not nil,
  \<^verbatim>\<open>OnConfigurationChange\<close> returns nil and replaces the store's configuration, whether
  or not a link fails to compile: afterwards \<^verbatim>\<open>getConfig\<close> points to a configuration
  whose links are the loaded ones, each as \<open>Compile\<close> left it, in the same order and
  number, with the loaded flags and raw admin list, and the admin set resolved from that
  list.
\<close>

theorem OnConfigurationChange_swaps:
  assumes "LoadPluginConfiguration api = Inr c" and "Plugin_conf p = Some a"
  shows "\<exists>c' w'. OnConfigurationChange al api p w = Inr (None, [Registration c'], w')
           \<and> deref w' (getConfig p) = Inr c'
           \<and> GetLinks p w' = Inr (Links c')
           \<and> Links c' = map (\<lambda>l. snd (Compile al l)) (Links c)
           \<and> length (Links c') = length (Links c)
           \<and> EnableAdminCommand c' = EnableAdminCommand c
           \<and> EnableOnUpdate c' = EnableOnUpdate c
           \<and> PluginAdmins c' = PluginAdmins c
           \<and> AdminUserIds c' = AdminUserIds (fst (parsePluginAdminList api c w))"
proof -
  from OnConfigurationChange_loaded [OF assms, of al w]
  obtain w' where r: "OnConfigurationChange al api p w =
             Inr (None, [Registration (compiled al api c)], w')"
    and h: "heap w' = (heap w)(a := compiled al api c)"
    by blast
  have "deref w' (getConfig p) = Inr (compiled al api c)"
    using assms(2) h by (simp add: deref_def getConfig_def)
  moreover have "GetLinks p w' = Inr (Links (compiled al api c))"
    using assms(2) h by (simp add: GetLinks_def deref_def)
  moreover have "AdminUserIds (compiled al api c) = AdminUserIds (fst (parsePluginAdminList api c w))"
    by (simp add: compiled_def parsePluginAdminList_eq admitted_def)
  ultimately show ?thesis
    using r by (simp add: compiled_def)
qed

text \<open>C2 on a loaded configuration of three links, the second of which fails to compile.\<close>

theorem OnConfigurationChange_swaps_witness:
  "LoadPluginConfiguration refusing_API = Inr loaded_Config \<and> Plugin_conf the_Plugin = Some 0
   \<and> fst (Compile name_links []) = Some (Err ''empty pattern'')
   \<and> (\<exists>c' w'. OnConfigurationChange name_links refusing_API the_Plugin fresh_world =
                 Inr (None, [Registration c'], w')
         \<and> deref w' (getConfig the_Plugin) = Inr c'
         \<and> GetLinks the_Plugin w' = Inr (Links c')
         \<and> Links c' = [''b'', [], ''a'']
         \<and> length (Links c') = 3)"
proof -
  have load: "LoadPluginConfiguration refusing_API = Inr loaded_Config"
    by (simp add: refusing_API_def)
  have ptr: "Plugin_conf the_Plugin = Some 0"
    by (simp add: the_Plugin_def)
  have fails: "fst (Compile name_links []) = Some (Err ''empty pattern'')"
    by (simp add: name_links_def)
  have links: "map (\<lambda>l. snd (Compile name_links l)) (Links loaded_Config) = [''b'', [], ''a'']"
    by (simp add: name_links_def loaded_Config_def)
  from OnConfigurationChange_swaps [OF load ptr, of name_links fresh_world]
  obtain c' w' where
    "OnConfigurationChange name_links refusing_API the_Plugin fresh_world =
       Inr (None, [Registration c'], w')"
    "deref w' (getConfig the_Plugin) = Inr c'"
    "GetLinks the_Plugin w' = Inr (Links c')"
    "Links c' = map (\<lambda>l. snd (Compile name_links l)) (Links loaded_Config)"
    by blast
  with links have
    "OnConfigurationChange name_links refusing_API the_Plugin fresh_world =
       Inr (None, [Registration c'], w')
     \<and> deref w' (getConfig the_Plugin) = Inr c'
     \<and> GetLinks the_Plugin w' = Inr (Links c')
     \<and> Links c' = [''b'', [], ''a'']
     \<and> length (Links c') = 3"
    by simp
  then have "\<exists>c' w'. OnConfigurationChange name_links refusing_API the_Plugin fresh_world =
                 Inr (None, [Registration c'], w')
         \<and> deref w' (getConfig the_Plugin) = Inr c'
         \<and> GetLinks the_Plugin w' = Inr (Links c')
         \<and> Links c' = [''b'', [], ''a'']
         \<and> length (Links c') = 3"
    by blast
  with load ptr fails show ?thesis
    by blast
qed

text \<open>
  Claim C8, as the code has it. For every configuration change that loads,
  \<^verbatim>\<open>OnConfigurationChange\<close> returns nil and has replaced the configuration before the
  goroutine runs, whatever the host will answer to the registration. The goroutine,
  whenever it runs, makes one call, \<^verbatim>\<open>RegisterCommand\<close> if \<open>EnableAdminCommand\<close> is
  set and \<^verbatim>\<open>UnregisterCommand\<close> otherwise; it changes no \<^verbatim>\<open>Config\<close> object, so
  nothing is rolled back, and it makes no log call: the answer is assigned to \<^verbatim>\<open>_\<close>.
\<close>

theorem registration_failure_discarded:
  assumes "LoadPluginConfiguration api = Inr c" and "Plugin_conf p = Some a"
  shows "\<exists>c' w'. OnConfigurationChange al api p w = Inr (None, [Registration c'], w')
           \<and> EnableAdminCommand c' = EnableAdminCommand c
           \<and> deref w' (getConfig p) = Inr c'
           \<and> (\<forall>w2. heap (run api (Registration c') w2) = heap w2
                 \<and> filter is_log (trace (run api (Registration c') w2)) = filter is_log (trace w2)
                 \<and> trace (run api (Registration c') w2) =
                     trace w2 @ [if EnableAdminCommand c then RegisterCommand_call autolink_Command
                                 else UnregisterCommand_call [] ''autolink''])"
proof -
  from OnConfigurationChange_loaded [OF assms, of al w]
  obtain w' where r: "OnConfigurationChange al api p w =
             Inr (None, [Registration (compiled al api c)], w')"
    and h: "heap w' = (heap w)(a := compiled al api c)"
    by blast
  have d: "deref w' (getConfig p) = Inr (compiled al api c)"
    using assms(2) h by (simp add: deref_def getConfig_def)
  have e: "EnableAdminCommand (compiled al api c) = EnableAdminCommand c"
    by (simp add: compiled_def)
  show ?thesis
    using r d e by (simp add: run_eq)
qed

text \<open>C8 on a host that refuses the registration.\<close>

theorem registration_failure_discarded_witness:
  "LoadPluginConfiguration refusing_API = Inr loaded_Config \<and> Plugin_conf the_Plugin = Some 0
   \<and> RegisterCommand refusing_API autolink_Command = Some (Err ''register refused'')
   \<and> (\<exists>c' w'. OnConfigurationChange name_links refusing_API the_Plugin fresh_world =
                 Inr (None, [Registration c'], w')
         \<and> deref w' (getConfig the_Plugin) = Inr c'
         \<and> heap (run refusing_API (Registration c') w') = heap w'
         \<and> filter is_log (trace (run refusing_API (Registration c') w')) = filter is_log (trace w')
         \<and> trace (run refusing_API (Registration c') w') =
             trace w' @ [RegisterCommand_call autolink_Command])"
proof -
  have load: "LoadPluginConfiguration refusing_API = Inr loaded_Config"
    by (simp add: refusing_API_def)
  have ptr: "Plugin_conf the_Plugin = Some 0"
    by (simp add: the_Plugin_def)
  have refused: "RegisterCommand refusing_API autolink_Command = Some (Err ''register refused'')"
    by (simp add: refusing_API_def)
  have enabled: "EnableAdminCommand loaded_Config"
    by (simp add: loaded_Config_def)
  from registration_failure_discarded [OF load ptr, of name_links fresh_world]
  obtain c' w' where r:
    "OnConfigurationChange name_links refusing_API the_Plugin fresh_world =
       Inr (None, [Registration c'], w')"
    "deref w' (getConfig the_Plugin) = Inr c'"
    and after: "\<forall>w2. heap (run refusing_API (Registration c') w2) = heap w2
         \<and> filter is_log (trace (run refusing_API (Registration c') w2)) = filter is_log (trace w2)
         \<and> trace (run refusing_API (Registration c') w2) =
             trace w2 @ [if EnableAdminCommand loaded_Config
                         then RegisterCommand_call autolink_Command
                         else UnregisterCommand_call [] ''autolink'']"
    by blast
  from after enabled have
    "heap (run refusing_API (Registration c') w') = heap w'
     \<and> filter is_log (trace (run refusing_API (Registration c') w')) = filter is_log (trace w')
     \<and> trace (run refusing_API (Registration c') w') =
         trace w' @ [RegisterCommand_call autolink_Command]"
    by simp
  with r have "\<exists>c' w'. OnConfigurationChange name_links refusing_API the_Plugin fresh_world =
                 Inr (None, [Registration c'], w')
         \<and> deref w' (getConfig the_Plugin) = Inr c'
         \<and> heap (run refusing_API (Registration c') w') = heap w'
         \<and> filter is_log (trace (run refusing_API (Registration c') w')) = filter is_log (trace w')
         \<and> trace (run refusing_API (Registration c') w') =
             trace w' @ [RegisterCommand_call autolink_Command]"
    by blast
  with load ptr refused show ?thesis
    by blast
qed

text \<open>
  Claim C8 as the spec states it fails: on a host that refuses \<^verbatim>\<open>RegisterCommand\<close>
  the goroutine's only call is that registration; no log call follows the failure.
\<close>

theorem registration_failure_not_logged:
  "RegisterCommand refusing_API autolink_Command = Some (Err ''register refused'')
   \<and> EnableAdminCommand loaded_Config
   \<and> trace (run refusing_API (Registration loaded_Config) fresh_world) =
       [RegisterCommand_call autolink_Command]
   \<and> filter is_log (trace (run refusing_API (Registration loaded_Config) fresh_world)) = []"
  by (simp add: refusing_API_def loaded_Config_def fresh_world_def)

section \<open>Saving links\<close>

lemma ToMap_eq:
  "ToMap al (Some a) w =
     (case marshal_links al (Links (heap w a)) of
        Inl err \<Rightarrow> Inl err
      | Inr js \<Rightarrow>
          Inr [(''enableadmincommand'', JBool (EnableAdminCommand (heap w a))),
               (''enableonupdate'', JBool (EnableOnUpdate (heap w a))),
               (''pluginadmins'', JString (coerce_utf8 (PluginAdmins (heap w a)))),
               (''links'', JArray js)])"
  by (simp add: ToMap_def json_Marshal_def json_Unmarshal_def Let_def split: sum.splits)

lemma SaveLinks_eq:
  assumes "Plugin_conf p = Some a"
  shows "SaveLinks al api p links w =
     (let w1 = w\<lparr>heap := (heap w)(a := (heap w a)\<lparr>Links := links\<rparr>)\<rparr> in
      case ToMap al (Some a) w1 of
        Inl err \<Rightarrow> Inr (Some (Wrap err ''unable convert config to map''), w1)
      | Inr configMap \<Rightarrow>
          Inr (case SavePluginConfig api configMap of
                 Some appErr \<Rightarrow> Some (Wrap appErr ''unable to save links'')
               | None \<Rightarrow> None,
               called (SavePluginConfig_call configMap (heap w1)) w1))"
  using assms
  by (simp add: SaveLinks_def UpdateConfig_def assign_Links_def getConfig_def Let_def
        split: sum.splits option.splits)

text \<open>
  Claim C7. For every rule sequence passed to \<^verbatim>\<open>SaveLinks\<close> (and a plugin whose
  \<^verbatim>\<open>p.conf\<close> is not nil), the first step sets the in-memory configuration's links to
  exactly that sequence while no call has yet been made on the host, so \<^verbatim>\<open>GetLinks\<close>
  at that point returns it; the configuration objects do not change after that step.
  If \<^verbatim>\<open>ToMap\<close> fails, \<^verbatim>\<open>SaveLinks\<close> returns its error wrapped and the host is not
  called; otherwise the host's save is called once with the map, the configuration
  objects at the moment of that call are the ones the first step left, with the new
  links in place, and if the save fails \<^verbatim>\<open>SaveLinks\<close> returns that error wrapped, else
  nil.
\<close>

theorem SaveLinks_sets_links:
  assumes "Plugin_conf p = Some a"
  shows "\<exists>w1 ret w'.
           UpdateConfig p (\<lambda>conf. assign_Links conf links) w = Inr w1
           \<and> trace w1 = trace w
           \<and> GetLinks p w1 = Inr links
           \<and> SaveLinks al api p links w = Inr (ret, w')
           \<and> heap w' = heap w1
           \<and> GetLinks p w' = Inr links
           \<and> (case ToMap al (getConfig p) w1 of
                 Inl err \<Rightarrow>
                   ret = Some (Wrap err ''unable convert config to map'') \<and> trace w' = trace w
               | Inr configMap \<Rightarrow>
                   trace w' = trace w @ [SavePluginConfig_call configMap (heap w1)]
                   \<and> Links (heap w1 a) = links
                   \<and> ret = (case SavePluginConfig api configMap of
                              Some appErr \<Rightarrow> Some (Wrap appErr ''unable to save links'')
                            | None \<Rightarrow> None))"
  using assms
  by (cases "ToMap al (Some a) (w\<lparr>heap := (heap w)(a := (heap w a)\<lparr>Links := links\<rparr>)\<rparr>)")
     (simp_all add: SaveLinks_eq UpdateConfig_def assign_Links_def getConfig_def GetLinks_def
        deref_def Let_def)

text \<open>C7 for two links on a host that refuses to save.\<close>

theorem SaveLinks_sets_links_witness:
  "Plugin_conf the_Plugin = Some 0
   \<and> UpdateConfig the_Plugin (\<lambda>conf. assign_Links conf [''x'', ''y'']) fresh_world =
       Inr (fresh_world\<lparr>heap := (heap fresh_world)(0 := zero_Config\<lparr>Links := [''x'', ''y'']\<rparr>)\<rparr>)
   \<and> (\<exists>w'. SaveLinks name_links refusing_API the_Plugin [''x'', ''y''] fresh_world =
              Inr (Some (Wrap (Err ''save refused'') ''unable to save links''), w')
         \<and> GetLinks the_Plugin w' = Inr [''x'', ''y'']
         \<and> trace w' =
             [SavePluginConfig_call
                [(''enableadmincommand'', JBool False), (''enableonupdate'', JBool False),
                 (''pluginadmins'', JString []),
                 (''links'', JArray [JString ''x'', JString ''y''])]
                ((heap fresh_world)(0 := zero_Config\<lparr>Links := [''x'', ''y'']\<rparr>))]
         \<and> Links (((heap fresh_world)(0 := zero_Config\<lparr>Links := [''x'', ''y'']\<rparr>)) 0)
             = [''x'', ''y''])"
proof -
  let ?w1 = "fresh_world\<lparr>heap := (heap fresh_world)(0 := zero_Config\<lparr>Links := [''x'', ''y'']\<rparr>)\<rparr>"
  let ?m = "[(''enableadmincommand'', JBool False), (''enableonupdate'', JBool False),
                 (''pluginadmins'', JString []),
                 (''links'', JArray [JString ''x'', JString ''y''])]"
  let ?s = "(heap fresh_world)(0 := zero_Config\<lparr>Links := [''x'', ''y'']\<rparr>)"
  have ptr: "Plugin_conf the_Plugin = Some 0"
    by (simp add: the_Plugin_def)
  have upd: "UpdateConfig the_Plugin (\<lambda>conf. assign_Links conf [''x'', ''y'']) fresh_world = Inr ?w1"
    by (simp add: UpdateConfig_def assign_Links_def the_Plugin_def fresh_world_def)
  have tm: "ToMap name_links (getConfig the_Plugin) ?w1 = Inr ?m"
    by (simp add: getConfig_def the_Plugin_def ToMap_eq zero_Config_def name_links_def
          coerce_utf8_empty coerce_utf8_ascii)
  have refused: "SavePluginConfig refusing_API ?m = Some (Err ''save refused'')"
    by (simp add: refusing_API_def)
  from SaveLinks_sets_links [OF ptr, of "[''x'', ''y'']" fresh_world name_links refusing_API]
  obtain w1 ret w' where
    "UpdateConfig the_Plugin (\<lambda>conf. assign_Links conf [''x'', ''y'']) fresh_world = Inr w1"
    and r: "SaveLinks name_links refusing_API the_Plugin [''x'', ''y''] fresh_world = Inr (ret, w')"
      "GetLinks the_Plugin w' = Inr [''x'', ''y'']"
    and c: "case ToMap name_links (getConfig the_Plugin) w1 of
                 Inl err \<Rightarrow>
                   ret = Some (Wrap err ''unable convert config to map'')
                   \<and> trace w' = trace fresh_world
               | Inr configMap \<Rightarrow>
                   trace w' = trace fresh_world @ [SavePluginConfig_call configMap (heap w1)]
                   \<and> Links (heap w1 0) = [''x'', ''y'']
                   \<and> ret = (case SavePluginConfig refusing_API configMap of
                              Some appErr \<Rightarrow> Some (Wrap appErr ''unable to save links'')
                            | None \<Rightarrow> None)"
    by blast
  with upd have w1: "w1 = ?w1"
    by simp
  from c have "trace w' = [SavePluginConfig_call ?m ?s]
      \<and> ret = Some (Wrap (Err ''save refused'') ''unable to save links'')"
    unfolding w1 tm by (simp add: refused fresh_world_def)
  moreover have "Links (?s 0) = [''x'', ''y'']"
    by simp
  ultimately have "\<exists>w'. SaveLinks name_links refusing_API the_Plugin [''x'', ''y''] fresh_world =
              Inr (Some (Wrap (Err ''save refused'') ''unable to save links''), w')
         \<and> GetLinks the_Plugin w' = Inr [''x'', ''y'']
         \<and> trace w' = [SavePluginConfig_call ?m ?s]
         \<and> Links (?s 0) = [''x'', ''y'']"
    using r by blast
  with ptr upd show ?thesis
    by blast
qed

text \<open>
  Claim C10. If the host's save call fails during \<^verbatim>\<open>SaveLinks\<close>, the in-memory
  configuration is not rolled back: \<^verbatim>\<open>SaveLinks\<close> returns the wrapped error, and
  afterwards \<^verbatim>\<open>GetLinks\<close> and \<^verbatim>\<open>getConfig\<close> give the new rule sequence.
\<close>

theorem SaveLinks_keeps_links_on_failure:
  assumes "Plugin_conf p = Some a"
      and "UpdateConfig p (\<lambda>conf. assign_Links conf links) w = Inr w1"
      and "ToMap al (getConfig p) w1 = Inr configMap"
      and "SavePluginConfig api configMap = Some appErr"
  shows "\<exists>w'. SaveLinks al api p links w = Inr (Some (Wrap appErr ''unable to save links''), w')
           \<and> GetLinks p w' = Inr links
           \<and> (\<exists>c'. deref w' (getConfig p) = Inr c' \<and> Links c' = links)
           \<and> trace w' = trace w @ [SavePluginConfig_call configMap (heap w1)]"
  using assms
  by (auto simp: SaveLinks_eq UpdateConfig_def assign_Links_def getConfig_def GetLinks_def
        deref_def Let_def)

text \<open>C10 for two links on a host that refuses to save.\<close>

theorem SaveLinks_keeps_links_on_failure_witness:
  "Plugin_conf the_Plugin = Some 0
   \<and> UpdateConfig the_Plugin (\<lambda>conf. assign_Links conf [''x'', ''y'']) fresh_world =
       Inr (fresh_world\<lparr>heap := (heap fresh_world)(0 := zero_Config\<lparr>Links := [''x'', ''y'']\<rparr>)\<rparr>)
   \<and> ToMap name_links (getConfig the_Plugin)
        (fresh_world\<lparr>heap := (heap fresh_world)(0 := zero_Config\<lparr>Links := [''x'', ''y'']\<rparr>)\<rparr>) =
       Inr [(''enableadmincommand'', JBool False), (''enableonupdate'', JBool False),
            (''pluginadmins'', JString []),
            (''links'', JArray [JString ''x'', JString ''y''])]
   \<and> SavePluginConfig refusing_API
        [(''enableadmincommand'', JBool False), (''enableonupdate'', JBool False),
         (''pluginadmins'', JString []),
         (''links'', JArray [JString ''x'', JString ''y''])] = Some (Err ''save refused'')
   \<and> (\<exists>w'. SaveLinks name_links refusing_API the_Plugin [''x'', ''y''] fresh_world =
              Inr (Some (Wrap (Err ''save refused'') ''unable to save links''), w')
         \<and> GetLinks the_Plugin w' = Inr [''x'', ''y''])"
proof -
  let ?w1 = "fresh_world\<lparr>heap := (heap fresh_world)(0 := zero_Config\<lparr>Links := [''x'', ''y'']\<rparr>)\<rparr>"
  let ?m = "[(''enableadmincommand'', JBool False), (''enableonupdate'', JBool False),
                 (''pluginadmins'', JString []),
                 (''links'', JArray [JString ''x'', JString ''y''])]"
  have ptr: "Plugin_conf the_Plugin = Some 0"
    by (simp add: the_Plugin_def)
  have upd: "UpdateConfig the_Plugin (\<lambda>conf. assign_Links conf [''x'', ''y'']) fresh_world = Inr ?w1"
    by (simp add: UpdateConfig_def assign_Links_def the_Plugin_def fresh_world_def)
  have tm: "ToMap name_links (getConfig the_Plugin) ?w1 = Inr ?m"
    by (simp add: getConfig_def the_Plugin_def ToMap_eq zero_Config_def name_links_def
          coerce_utf8_empty coerce_utf8_ascii)
  have refused: "SavePluginConfig refusing_API ?m = Some (Err ''save refused'')"
    by (simp add: refusing_API_def)
  from SaveLinks_keeps_links_on_failure [OF ptr upd tm refused]
  have "\<exists>w'. SaveLinks name_links refusing_API the_Plugin [''x'', ''y''] fresh_world =
              Inr (Some (Wrap (Err ''save refused'') ''unable to save links''), w')
         \<and> GetLinks the_Plugin w' = Inr [''x'', ''y'']"
    by blast
  with ptr upd tm refused show ?thesis
    by blast
qed

section \<open>The transport map\<close>






section \<open>Sorting\<close>

lemma Sorted_eq:
  "Sorted al (Some a) w =
     Inr (Some a,
          w\<lparr>heap := (heap w)(a := (heap w a)\<lparr>Links :=
                 sort_Slice (\<lambda>x y. DisplayName al x < DisplayName al y) (Links (heap w a))\<rparr>)\<rparr>)"
  by (simp add: Sorted_def Let_def deref_def assign_Links_def)

text \<open>
  Claim C6 does not hold of the code. For a configuration at address 0 whose links are
  b, the empty name and a, \<^verbatim>\<open>Sorted\<close> returns the pointer it was called on, not a
  copy, and the links of that configuration are afterwards in sorted order: the receiver
  has been changed.
\<close>

theorem Sorted_reorders_its_receiver:
  "Links (heap (fresh_world\<lparr>heap := (heap fresh_world)(0 := loaded_Config)\<rparr>) 0) = [''b'', [], ''a'']
   \<and> Sorted name_links (Some 0) (fresh_world\<lparr>heap := (heap fresh_world)(0 := loaded_Config)\<rparr>) =
       Inr (Some 0,
            fresh_world\<lparr>heap := (heap fresh_world)(0 := loaded_Config\<lparr>Links := [[], ''a'', ''b'']\<rparr>)\<rparr>)"
  by (simp add: Sorted_eq loaded_Config_def name_links_def sort_Slice_def fresh_world_def)

end
